theory Spec2Isabelle
  imports Main
begin

section \<open>JavaScript values reaching the validators\<close>

text \<open>
  \<^verbatim>\<open>isRole(value: unknown)\<close> takes any JavaScript value. The validator only
  asks whether the value is one of a few primitive strings, so the payload of the other
  constructors is carried along and never inspected. Two values of different constructors
  are never the same value; a string object built with \<^verbatim>\<open>new String\<close> is a
  \<open>JObject\<close>, not a \<open>JString\<close>.
\<close>

datatype js_value =
    JUndefined
  | JNull
  | JBoolean bool
  | JNumber int
  | JBigInt int
  | JString string
  | JSymbol string
  | JFunction string
  | JArray "js_value list"
  | JObject "(string \<times> js_value) list"

text \<open>
  \<^verbatim>\<open>Array.prototype.includes\<close> and \<^verbatim>\<open>Set.prototype.has\<close> on a collection of
  primitive strings: a search by equality.
\<close>

fun array_includes :: "'a list \<Rightarrow> 'a \<Rightarrow> bool" where
  "array_includes [] x = False"
| "array_includes (y # ys) x = (if y = x then True else array_includes ys x)"

section \<open>The enum schema of the validation library\<close>

text \<open>
  \<^verbatim>\<open>z.enum([...])\<close> comes from the zod package (version 4, as the validation
  package's comments say), a dependency and not part of the repository. Its enum schema
  keeps the listed values in a set and parses an input by asking whether the set has it:
  if so the input is returned as the data, otherwise the parse has one issue with code
  \<^verbatim>\<open>invalid_value\<close>. \<^verbatim>\<open>safeParse\<close> reports the outcome as an object with a
  \<^verbatim>\<open>success\<close> flag instead of throwing.
\<close>

datatype zod_issue = invalid_value "string list" js_value

datatype zod_schema = ZodEnum "string list"

datatype safe_parse_result = ParseSuccess js_value | ParseError zod_issue

fun safeParse :: "zod_schema \<Rightarrow> js_value \<Rightarrow> safe_parse_result" where
  "safeParse (ZodEnum vals) v =
     (if array_includes (map JString vals) v then ParseSuccess v
      else ParseError (invalid_value vals v))"

fun success :: "safe_parse_result \<Rightarrow> bool" where
  "success (ParseSuccess d) = True"
| "success (ParseError e) = False"

section \<open>Roles (packages/validations/src/roles.ts)\<close>

text \<open>
  \<^verbatim>\<open>
  export const ROLES = { ADMIN: 'admin', STUDENT: 'student', PARENT: 'parent' } as const;
  export const RoleSchema = z.enum([ROLES.ADMIN, ROLES.STUDENT, ROLES.PARENT]);
  export type Role = z.infer<typeof RoleSchema>;
  export function isRole(value: unknown): value is Role {
    return RoleSchema.safeParse(value).success;
  }
  \<close>
\<close>

definition ADMIN :: string where "ADMIN = ''admin''"
definition STUDENT :: string where "STUDENT = ''student''"
definition PARENT :: string where "PARENT = ''parent''"

definition RoleSchema :: zod_schema where
  "RoleSchema = ZodEnum [ADMIN, STUDENT, PARENT]"

text \<open>The type \<^verbatim>\<open>Role\<close>: the union of the three string literals.\<close>

datatype Role = Admin | Student | Parent

fun literal :: "Role \<Rightarrow> string" where
  "literal Admin = ADMIN"
| "literal Student = STUDENT"
| "literal Parent = PARENT"

definition isRole :: "js_value \<Rightarrow> bool" where
  "isRole v = success (safeParse RoleSchema v)"

text \<open>
  \<^verbatim>\<open>
  export function hasRole(userRole: string | null | undefined, ...allowedRoles: Role[]): boolean {
    if (!userRole) return false;
    return allowedRoles.includes(userRole as Role);
  }
  \<close>
  The first parameter is a string, \<^verbatim>\<open>null\<close> or \<^verbatim>\<open>undefined\<close>. The test
  \<^verbatim>\<open>!userRole\<close> is JavaScript falsiness: it holds for \<^verbatim>\<open>null\<close>, for
  \<^verbatim>\<open>undefined\<close> and for the empty string. The rest parameter has the type
  \<^verbatim>\<open>Role[]\<close>.
\<close>

datatype nullable_string = Undefined | Null | Str string

fun falsy :: "nullable_string \<Rightarrow> bool" where
  "falsy Undefined = True"
| "falsy Null = True"
| "falsy (Str s) = (s = [])"

fun hasRole :: "nullable_string \<Rightarrow> Role list \<Rightarrow> bool" where
  "hasRole userRole allowedRoles =
     (if falsy userRole then False
      else (case userRole of
              Str s \<Rightarrow> array_includes (map literal allowedRoles) s
            | _ \<Rightarrow> False))"

section \<open>Access control middleware (apps/api/src/middleware/access-control.middleware.ts)\<close>

text \<open>
  The middleware reads \<^verbatim>\<open>session\<close> and \<^verbatim>\<open>user\<close> from the request context; either
  may be absent. It answers with a JSON error and a status code, or hands the request to
  the next handler.
  \<^verbatim>\<open>
  export const requireRole = (...allowedRoles: Role[]) => {
    return createMiddleware<HonoEnv>(async (c, next) => {
      const user = c.get('user');
      const session = c.get('session');
      if (!session || !user) {
        return c.json({ error: 'Unauthorized' }, 401);
      }
      if (!hasRole(user.role, ...allowedRoles)) {
        return c.json({ error: 'Forbidden', requiredRoles: allowedRoles }, 403);
      }
      return next();
    });
  };
  \<close>
\<close>

record auth_session =
  sessionId :: string
  sessionUserId :: string

record auth_user =
  userId :: string
  role :: nullable_string

record request_context =
  session :: "auth_session option"
  user :: "auth_user option"

datatype json_body =
    ErrorBody string
  | ForbiddenBody string "Role list"

datatype middleware_result = Json json_body nat | Next

definition requireAuth :: "request_context \<Rightarrow> middleware_result" where
  "requireAuth c =
     (if session c = None \<or> user c = None then Json (ErrorBody ''Unauthorized'') 401
      else Next)"

definition requireRole :: "Role list \<Rightarrow> request_context \<Rightarrow> middleware_result" where
  "requireRole allowedRoles c =
     (case (session c, user c) of
        (Some s, Some u) \<Rightarrow>
          (if \<not> hasRole (role u) allowedRoles
           then Json (ForbiddenBody ''Forbidden'' allowedRoles) 403
           else Next)
      | _ \<Rightarrow> Json (ErrorBody ''Unauthorized'') 401)"

definition requireAdmin :: "request_context \<Rightarrow> middleware_result" where
  "requireAdmin = requireRole [Admin]"

definition requireStudent :: "request_context \<Rightarrow> middleware_result" where
  "requireStudent = requireRole [Student]"

definition requireParent :: "request_context \<Rightarrow> middleware_result" where
  "requireParent = requireRole [Parent]"

definition requireStudentOrParent :: "request_context \<Rightarrow> middleware_result" where
  "requireStudentOrParent = requireRole [Student, Parent]"

definition requireAdminOrParent :: "request_context \<Rightarrow> middleware_result" where
  "requireAdminOrParent = requireRole [Admin, Parent]"

section \<open>Parent-student links (link service)\<close>

text \<open>
  A row of the table \<^verbatim>\<open>parent_student_link\<close>. The status column is text, not null,
  with default \<^verbatim>\<open>'pending'\<close>; the schema's comment lists \<^verbatim>\<open>'pending'\<close>,
  \<^verbatim>\<open>'approved'\<close> and \<^verbatim>\<open>'rejected'\<close>, but the column itself accepts any string.
  Timestamps are milliseconds since the epoch.
\<close>

record parent_student_link =
  linkId :: string
  parentId :: string
  studentId :: string
  status :: string
  requestedAt :: nat
  respondedAt :: "nat option"
  createdAt :: nat
  updatedAt :: nat

text \<open>
  \<^verbatim>\<open>db.query.parentStudentLink.findFirst({ where })\<close> returns the first row that
  satisfies the condition, in the order the database yields the rows, or
  \<^verbatim>\<open>undefined\<close> when there is none. The table is the list of its rows in that order.
\<close>

fun findFirst :: "('r \<Rightarrow> bool) \<Rightarrow> 'r list \<Rightarrow> 'r option" where
  "findFirst wh [] = None"
| "findFirst wh (r # rs) = (if wh r then Some r else findFirst wh rs)"

text \<open>
  \<^verbatim>\<open>
  export async function isParentLinkedToStudent(parentId: string, studentId: string): Promise<boolean> {
    const link = await db.query.parentStudentLink.findFirst({
      where: (links, { and, eq }) => and(
        eq(links.parentId, parentId),
        eq(links.studentId, studentId),
        eq(links.status, 'approved')
      ),
    });
    return !!link;
  }
  \<close>
  A row is an object, hence truthy: \<^verbatim>\<open>!!link\<close> is true exactly when a row was found.
\<close>

definition isParentLinkedToStudent ::
    "parent_student_link list \<Rightarrow> string \<Rightarrow> string \<Rightarrow> bool" where
  "isParentLinkedToStudent db pid sid =
     (case findFirst (\<lambda>links. parentId links = pid \<and> studentId links = sid
                               \<and> status links = ''approved'') db of
        None \<Rightarrow> False
      | Some link \<Rightarrow> True)"

section \<open>Auxiliary facts\<close>

lemma array_includes_set: "array_includes xs x \<longleftrightarrow> x \<in> set xs"
  by (induction xs) auto

lemma literal_nonempty: "literal r \<noteq> []"
  by (cases r) (simp_all add: ADMIN_def STUDENT_def PARENT_def)

lemma literal_inj: "literal r = literal r' \<Longrightarrow> r = r'"
  by (cases r; cases r') (simp_all add: ADMIN_def STUDENT_def PARENT_def)

lemma findFirst_None_iff: "findFirst wh rs = None \<longleftrightarrow> (\<forall>r \<in> set rs. \<not> wh r)"
  by (induction rs) auto

lemma findFirst_Some: "findFirst wh rs = Some r \<Longrightarrow> r \<in> set rs \<and> wh r"
  by (induction rs) (auto split: if_splits)

lemma findFirst_filter:
  "(\<And>r. wh r \<Longrightarrow> keep r) \<Longrightarrow> findFirst wh (filter keep rs) = findFirst wh rs"
  by (induction rs) auto

lemma isRole_string:
  "isRole (JString s) \<longleftrightarrow> s = ''admin'' \<or> s = ''student'' \<or> s = ''parent''"
  by (auto simp add: isRole_def RoleSchema_def ADMIN_def STUDENT_def PARENT_def)

lemma literal_cases: "(\<exists>r. s = literal r) \<longleftrightarrow> s = ''admin'' \<or> s = ''student'' \<or> s = ''parent''"
proof
  assume "\<exists>r. s = literal r"
  then obtain r where "s = literal r" ..
  then show "s = ''admin'' \<or> s = ''student'' \<or> s = ''parent''"
    by (cases r) (simp_all add: ADMIN_def STUDENT_def PARENT_def)
next
  assume "s = ''admin'' \<or> s = ''student'' \<or> s = ''parent''"
  then consider "s = literal Admin" | "s = literal Student" | "s = literal Parent"
    by (auto simp add: ADMIN_def STUDENT_def PARENT_def)
  then show "\<exists>r. s = literal r" by cases blast+
qed

lemma hasRole_Str:
  "hasRole (Str s) allowedRoles \<longleftrightarrow> (\<exists>r \<in> set allowedRoles. s = literal r)"
proof (cases "s = []")
  case True
  then show ?thesis using literal_nonempty by (metis falsy.simps(3) hasRole.simps)
next
  case False
  then show ?thesis by (auto simp add: array_includes_set)
qed

lemma isParentLinkedToStudent_set:
  "isParentLinkedToStudent db pid sid \<longleftrightarrow>
     (\<exists>l \<in> set db. parentId l = pid \<and> studentId l = sid \<and> status l = ''approved'')"
  unfolding isParentLinkedToStudent_def by (induction db) auto

section \<open>The role validator\<close>

text \<open>
  Claim C8. The roles form a closed variant with exactly the three values admin, student
  and parent: for every JavaScript value \<open>v\<close>, \<open>isRole v\<close> (the success flag of
  \<open>RoleSchema\<close>'s \<open>safeParse\<close>) holds if and only if \<open>v\<close> is one of the primitive strings
  \<^verbatim>\<open>'admin'\<close>, \<^verbatim>\<open>'student'\<close>, \<^verbatim>\<open>'parent'\<close>; these are exactly the literals of the three
  constructors of \<open>Role\<close>, which are pairwise different.
\<close>

theorem isRole_iff_role_literal:
  "(isRole v \<longleftrightarrow> v = JString ''admin'' \<or> v = JString ''student'' \<or> v = JString ''parent'')
   \<and> (isRole v \<longleftrightarrow> (\<exists>r. v = JString (literal r)))
   \<and> (success (safeParse RoleSchema v) \<longleftrightarrow> v \<in> JString ` {ADMIN, STUDENT, PARENT})
   \<and> card (range literal) = 3"
proof -
  have a: "isRole v \<longleftrightarrow> v = JString ''admin'' \<or> v = JString ''student'' \<or> v = JString ''parent''"
  proof (cases v)
    case (JString s)
    then show ?thesis using isRole_string [of s] by simp
  qed (simp_all add: isRole_def RoleSchema_def)
  have b: "(\<exists>r. v = JString (literal r))
      \<longleftrightarrow> v = JString ''admin'' \<or> v = JString ''student'' \<or> v = JString ''parent''"
  proof (cases v)
    case (JString s)
    then show ?thesis using literal_cases [of s] by simp
  qed simp_all
  have c: "v \<in> JString ` {ADMIN, STUDENT, PARENT}
      \<longleftrightarrow> v = JString ''admin'' \<or> v = JString ''student'' \<or> v = JString ''parent''"
    by (auto simp add: ADMIN_def STUDENT_def PARENT_def)
  have "range literal = {ADMIN, STUDENT, PARENT}"
  proof
    show "range literal \<subseteq> {ADMIN, STUDENT, PARENT}"
    proof
      fix s assume "s \<in> range literal"
      then obtain r where "s = literal r" by blast
      then show "s \<in> {ADMIN, STUDENT, PARENT}" by (cases r) simp_all
    qed
    have "ADMIN = literal Admin" "STUDENT = literal Student" "PARENT = literal Parent"
      by simp_all
    then show "{ADMIN, STUDENT, PARENT} \<subseteq> range literal" by (metis insert_subset empty_subsetI rangeI)
  qed
  then have d: "card (range literal) = 3"
    by (simp add: ADMIN_def STUDENT_def PARENT_def)
  show ?thesis using a b c d by (simp add: isRole_def)
qed

theorem isRole_iff_role_literal_witness:
  "isRole (JString ''parent'') \<and> \<not> isRole (JString ''coach'') \<and> \<not> isRole (JString ''Admin'')
   \<and> \<not> isRole JNull \<and> \<not> isRole (JArray [JString ''admin''])"
  using isRole_iff_role_literal [of "JString ''parent''"]
    isRole_iff_role_literal [of "JString ''coach''"]
    isRole_iff_role_literal [of "JString ''Admin''"]
    isRole_iff_role_literal [of JNull]
    isRole_iff_role_literal [of "JArray [JString ''admin'']"]
  by simp

section \<open>Role checks in the middleware\<close>

text \<open>
  Claim C9. For every user role value and every list of allowed roles, \<open>hasRole\<close> returns
  true if and only if the user role is neither \<^verbatim>\<open>null\<close> nor \<^verbatim>\<open>undefined\<close> and equals
  one of the allowed roles. With an empty list of allowed roles it returns false, and a
  request whose user has no role (\<^verbatim>\<open>null\<close> or \<^verbatim>\<open>undefined\<close>) is never passed on by
  \<open>requireRole\<close>: it is answered with status 401 or 403.
\<close>

theorem hasRole_iff:
  "(hasRole userRole allowedRoles \<longleftrightarrow>
      userRole \<noteq> Null \<and> userRole \<noteq> Undefined
      \<and> (\<exists>r \<in> set allowedRoles. userRole = Str (literal r)))
   \<and> \<not> hasRole userRole []
   \<and> (\<forall>u. user c = Some u \<and> (role u = Null \<or> role u = Undefined) \<longrightarrow>
         requireRole allowedRoles c \<noteq> Next
         \<and> requireRole allowedRoles c =
             (if session c = None then Json (ErrorBody ''Unauthorized'') 401
              else Json (ForbiddenBody ''Forbidden'' allowedRoles) 403))"
proof (intro conjI allI impI)
  show "hasRole userRole allowedRoles \<longleftrightarrow>
      userRole \<noteq> Null \<and> userRole \<noteq> Undefined
      \<and> (\<exists>r \<in> set allowedRoles. userRole = Str (literal r))"
  proof (cases userRole)
    case (Str s)
    then show ?thesis using hasRole_Str [of s allowedRoles] by simp
  qed simp_all
next
  show "\<not> hasRole userRole []"
    by (cases userRole) simp_all
next
  fix u
  assume h: "user c = Some u \<and> (role u = Null \<or> role u = Undefined)"
  then have nr: "\<not> hasRole (role u) allowedRoles" by auto
  show "requireRole allowedRoles c \<noteq> Next"
    using h nr by (cases "session c") (simp_all add: requireRole_def)
  show "requireRole allowedRoles c =
      (if session c = None then Json (ErrorBody ''Unauthorized'') 401
       else Json (ForbiddenBody ''Forbidden'' allowedRoles) 403)"
    using h nr by (cases "session c") (simp_all add: requireRole_def)
qed

theorem hasRole_iff_witness:
  "hasRole (Str ''parent'') [Student, Parent]
   \<and> \<not> hasRole (Str ''admin'') [Student, Parent]
   \<and> \<not> hasRole Null [Admin, Student, Parent]
   \<and> requireRole [Admin, Student, Parent]
        \<lparr>session = Some \<lparr>sessionId = ''s1'', sessionUserId = ''u1''\<rparr>,
         user = Some \<lparr>userId = ''u1'', role = Null\<rparr>\<rparr>
      = Json (ForbiddenBody ''Forbidden'' [Admin, Student, Parent]) 403"
  using hasRole_iff [of "Str ''parent''" "[Student, Parent]"
      "\<lparr>session = Some \<lparr>sessionId = ''s1'', sessionUserId = ''u1''\<rparr>,
        user = Some \<lparr>userId = ''u1'', role = Null\<rparr>\<rparr>"]
    hasRole_iff [of "Str ''admin''" "[Student, Parent]"
      "\<lparr>session = Some \<lparr>sessionId = ''s1'', sessionUserId = ''u1''\<rparr>,
        user = Some \<lparr>userId = ''u1'', role = Null\<rparr>\<rparr>"]
    hasRole_iff [of Null "[Admin, Student, Parent]"
      "\<lparr>session = Some \<lparr>sessionId = ''s1'', sessionUserId = ''u1''\<rparr>,
        user = Some \<lparr>userId = ''u1'', role = Null\<rparr>\<rparr>"]
  by (simp add: ADMIN_def STUDENT_def PARENT_def)

section \<open>The link check\<close>

text \<open>
  Claim C10. \<open>isParentLinkedToStudent\<close> returns true if and only if the table holds a row
  for exactly that parent and that student whose status is \<^verbatim>\<open>'approved'\<close>. Rows in status
  \<^verbatim>\<open>'pending'\<close> or \<^verbatim>\<open>'rejected'\<close> do not count: deleting all of them from the table
  leaves the answer unchanged, and a pair whose only rows are pending or rejected gets the
  answer of a pair with no row at all, false.
\<close>

theorem isParentLinkedToStudent_iff:
  "(isParentLinkedToStudent db pid sid \<longleftrightarrow>
      (\<exists>l \<in> set db. parentId l = pid \<and> studentId l = sid \<and> status l = ''approved''))
   \<and> isParentLinkedToStudent
        (filter (\<lambda>l. status l \<noteq> ''pending'' \<and> status l \<noteq> ''rejected'') db) pid sid
      = isParentLinkedToStudent db pid sid
   \<and> ((\<forall>l \<in> set db. parentId l = pid \<and> studentId l = sid \<longrightarrow>
          status l = ''pending'' \<or> status l = ''rejected'') \<longrightarrow>
        isParentLinkedToStudent db pid sid = isParentLinkedToStudent [] pid sid)"
proof (intro conjI impI)
  show "isParentLinkedToStudent db pid sid \<longleftrightarrow>
      (\<exists>l \<in> set db. parentId l = pid \<and> studentId l = sid \<and> status l = ''approved'')"
    by (rule isParentLinkedToStudent_set)
  show "isParentLinkedToStudent
        (filter (\<lambda>l. status l \<noteq> ''pending'' \<and> status l \<noteq> ''rejected'') db) pid sid
      = isParentLinkedToStudent db pid sid"
    unfolding isParentLinkedToStudent_def
    by (subst findFirst_filter) simp_all
  assume "\<forall>l \<in> set db. parentId l = pid \<and> studentId l = sid \<longrightarrow>
          status l = ''pending'' \<or> status l = ''rejected''"
  then have "\<not> (\<exists>l \<in> set db. parentId l = pid \<and> studentId l = sid \<and> status l = ''approved'')"
    by auto
  then show "isParentLinkedToStudent db pid sid = isParentLinkedToStudent [] pid sid"
    by (simp add: isParentLinkedToStudent_set)
qed

theorem isParentLinkedToStudent_iff_witness:
  "isParentLinkedToStudent
     [\<lparr>linkId = ''l1'', parentId = ''p1'', studentId = ''s1'', status = ''rejected'',
        requestedAt = 10, respondedAt = Some 20, createdAt = 10, updatedAt = 20\<rparr>,
      \<lparr>linkId = ''l2'', parentId = ''p1'', studentId = ''s1'', status = ''approved'',
        requestedAt = 30, respondedAt = Some 40, createdAt = 30, updatedAt = 40\<rparr>]
     ''p1'' ''s1''
   \<and> \<not> isParentLinkedToStudent
     [\<lparr>linkId = ''l3'', parentId = ''p2'', studentId = ''s1'', status = ''pending'',
        requestedAt = 50, respondedAt = None, createdAt = 50, updatedAt = 50\<rparr>,
      \<lparr>linkId = ''l2'', parentId = ''p1'', studentId = ''s1'', status = ''approved'',
        requestedAt = 30, respondedAt = Some 40, createdAt = 30, updatedAt = 40\<rparr>]
     ''p2'' ''s1''"
  using isParentLinkedToStudent_iff [of
      "[\<lparr>linkId = ''l1'', parentId = ''p1'', studentId = ''s1'', status = ''rejected'',
          requestedAt = 10, respondedAt = Some 20, createdAt = 10, updatedAt = 20\<rparr>,
        \<lparr>linkId = ''l2'', parentId = ''p1'', studentId = ''s1'', status = ''approved'',
          requestedAt = 30, respondedAt = Some 40, createdAt = 30, updatedAt = 40\<rparr>]"
      "''p1''" "''s1''"]
    isParentLinkedToStudent_iff [of
      "[\<lparr>linkId = ''l3'', parentId = ''p2'', studentId = ''s1'', status = ''pending'',
          requestedAt = 50, respondedAt = None, createdAt = 50, updatedAt = 50\<rparr>,
        \<lparr>linkId = ''l2'', parentId = ''p1'', studentId = ''s1'', status = ''approved'',
          requestedAt = 30, respondedAt = Some 40, createdAt = 30, updatedAt = 40\<rparr>]"
      "''p2''" "''s1''"]
  by simp

end
